theory Spec2Isabelle
  imports Main
begin

section \<open>WhatsBot Client.js: data model\<close>

text \<open>
  The client drives a page of the web application through puppeteer. Three things are
  modelled: the event bridge (the six host functions exposed to the page by
  \<open>initialize\<close> and the page-side listeners that call them), the bootstrap sequence of
  \<open>initialize\<close> together with \<open>destroy\<close>, and \<open>sendMessage\<close> with the script it
  evaluates inside the page.

  A raw message record is what the page serialises and hands to an exposed function. Only
  the fields that Client.js reads are named; the remaining fields are kept in \<open>rest\<close>.
  \<open>msg.id\<close> is itself an object with the fields \<open>fromMe\<close> and \<open>id\<close>.
\<close>

record msg_key =
  fromMe :: bool
  id_str :: string

record 'r raw_msg =
  isNewMsg :: bool
  msg_type :: string
  subtype :: "string option"
  msg_id :: msg_key
  rest :: 'r

text \<open>
  \<open>new Message(this, data)\<close> and \<open>new GroupNotification(this, data)\<close> come from
  \<open>./structures\<close>; they are kept as constructors applied to the raw record.
\<close>

datatype 'r message = Message "'r raw_msg"

datatype 'r group_notification = GroupNotification "'r raw_msg"

type_synonym wa_state = string

type_synonym ack = int

text \<open>The session object built in \<open>initialize\<close>; a key missing from local storage reads as undefined.\<close>

record session =
  WABrowserId :: "string option"
  WASecretBundle :: "string option"
  WAToken1 :: "string option"
  WAToken2 :: "string option"

text \<open>
  The constants \<open>WAState.CONNECTED\<close>, \<open>WAState.OPENING\<close>, \<open>WAState.PAIRING\<close> and
  \<open>WAState.TIMEOUT\<close> live in \<open>./util/Constants\<close>; their values are a parameter.
\<close>

record wa_states =
  CONNECTED :: wa_state
  OPENING :: wa_state
  PAIRING :: wa_state
  TIMEOUT :: wa_state

text \<open>Values that JavaScript throws in the modelled code.\<close>

datatype js_error =
    Thrown string
  | TypeError string
  | ReferenceError string
  | External string

text \<open>
  One constructor per member of \<open>Events\<close> that Client.js emits, with the arguments passed to
  \<open>this.emit\<close>. The second argument of \<open>MESSAGE_REVOKED_EVERYONE\<close> is \<open>revoked_msg\<close>, which
  stays undefined (\<open>None\<close>) unless it is assigned.
\<close>

datatype 'r event =
    AUTHENTICATED session
  | READY
  | MESSAGE_CREATE "'r message"
  | MESSAGE_RECEIVED "'r message"
  | MESSAGE_REVOKED_EVERYONE "'r message" "'r message option"
  | MESSAGE_REVOKED_ME "'r message"
  | MESSAGE_ACK "'r message" ack
  | GROUP_JOIN "'r group_notification"
  | GROUP_LEAVE "'r group_notification"
  | GROUP_UPDATE "'r group_notification"
  | STATE_CHANGED wa_state
  | DISCONNECTED wa_state

text \<open>
  What a host function does besides returning: calls of \<open>this.emit\<close>, the call
  \<open>this.destroy()\<close> (whose promise is not awaited) and \<open>console.log\<close>. Listeners
  registered on the emitter are host code outside Client.js and are taken to return.
\<close>

datatype 'r effect =
    Emit "'r event"
  | Destroy
  | ConsoleLog js_error

section \<open>The event bridge\<close>

definition onAddMessageEvent :: "'r raw_msg \<Rightarrow> 'r effect list" where
  "onAddMessageEvent msg =
    (if \<not> isNewMsg msg then []
     else if msg_type msg = ''gp2'' then
       (let notification = GroupNotification msg in
        if subtype msg = Some ''add'' \<or> subtype msg = Some ''invite'' then
          [Emit (GROUP_JOIN notification)]
        else if subtype msg = Some ''remove'' \<or> subtype msg = Some ''leave'' then
          [Emit (GROUP_LEAVE notification)]
        else
          [Emit (GROUP_UPDATE notification)])
     else
       (let message = Message msg in
        Emit (MESSAGE_CREATE message) #
        (if fromMe (msg_id msg) then [] else [Emit (MESSAGE_RECEIVED message)])))"

text \<open>
  \<open>last_message\<close> is a variable of \<open>initialize\<close> captured by two of the exposed functions;
  it starts undefined. The handler for \<open>change:type\<close> reads it, the handler for \<open>change\<close>
  writes it.
\<close>

definition onChangeMessageTypeEvent :: "'r raw_msg option \<Rightarrow> 'r raw_msg \<Rightarrow> 'r effect list" where
  "onChangeMessageTypeEvent last_message msg =
    (if msg_type msg = ''revoked'' then
       (let message = Message msg;
            revoked_msg =
              (case last_message of
                 None \<Rightarrow> None
               | Some lm \<Rightarrow>
                   if id_str (msg_id msg) = id_str (msg_id lm) then Some (Message lm) else None)
        in [Emit (MESSAGE_REVOKED_EVERYONE message revoked_msg)])
     else [])"

definition onChangeMessageEvent :: "'r raw_msg option \<Rightarrow> 'r raw_msg \<Rightarrow> 'r raw_msg option" where
  "onChangeMessageEvent last_message msg =
    (if msg_type msg \<noteq> ''revoked'' then Some msg else last_message)"

definition onRemoveMessageEvent :: "'r raw_msg \<Rightarrow> 'r effect list" where
  "onRemoveMessageEvent msg =
    (if \<not> isNewMsg msg then []
     else (let message = Message msg in [Emit (MESSAGE_REVOKED_ME message)]))"

definition onMessageAckEvent :: "'r raw_msg \<Rightarrow> ack \<Rightarrow> 'r effect list" where
  "onMessageAckEvent msg a = (let message = Message msg in [Emit (MESSAGE_ACK message a)])"

definition ACCEPTED_STATES :: "wa_states \<Rightarrow> wa_state list" where
  "ACCEPTED_STATES WAState = [CONNECTED WAState, OPENING WAState, PAIRING WAState, TIMEOUT WAState]"

definition onAppStateChangedEvent :: "wa_states \<Rightarrow> wa_state \<Rightarrow> 'r effect list" where
  "onAppStateChangedEvent WAState state =
    Emit (STATE_CHANGED state) #
    (if state \<notin> set (ACCEPTED_STATES WAState) then [Emit (DISCONNECTED state), Destroy] else [])"

text \<open>
  The notifications of the page's store that the last \<open>page.evaluate\<close> of \<open>initialize\<close>
  subscribes to: \<open>add\<close>, \<open>change\<close>, \<open>change:type\<close>, \<open>change:ack\<close> and \<open>remove\<close> on
  \<open>Store.Msg\<close>, and \<open>change:state\<close> on \<open>Store.AppState\<close>.
\<close>

datatype 'r notification =
    Msg_add "'r raw_msg"
  | Msg_change "'r raw_msg"
  | Msg_change_type "'r raw_msg"
  | Msg_change_ack "'r raw_msg" ack
  | Msg_remove "'r raw_msg"
  | AppState_change_state wa_state

text \<open>
  One notification: the page-side listener (with its own \<open>isNewMsg\<close> test for \<open>add\<close> and
  \<open>remove\<close>) calls the exposed function. The result is what the host did and the new
  value of \<open>last_message\<close>.
\<close>

fun deliver :: "wa_states \<Rightarrow> 'r raw_msg option \<Rightarrow> 'r notification \<Rightarrow> 'r effect list \<times> 'r raw_msg option" where
  "deliver WAState lm (Msg_add msg) = ((if isNewMsg msg then onAddMessageEvent msg else []), lm)"
| "deliver WAState lm (Msg_change msg) = ([], onChangeMessageEvent lm msg)"
| "deliver WAState lm (Msg_change_type msg) = (onChangeMessageTypeEvent lm msg, lm)"
| "deliver WAState lm (Msg_change_ack msg a) = (onMessageAckEvent msg a, lm)"
| "deliver WAState lm (Msg_remove msg) = ((if isNewMsg msg then onRemoveMessageEvent msg else []), lm)"
| "deliver WAState lm (AppState_change_state state) = (onAppStateChangedEvent WAState state, lm)"

text \<open>A sequence of notifications, handled in arrival order.\<close>

fun deliver_all :: "wa_states \<Rightarrow> 'r raw_msg option \<Rightarrow> 'r notification list \<Rightarrow> 'r effect list \<times> 'r raw_msg option" where
  "deliver_all WAState lm [] = ([], lm)"
| "deliver_all WAState lm (n # ns) =
    (let (es, lm') = deliver WAState lm n;
         (es', lm'') = deliver_all WAState lm' ns
     in (es @ es', lm''))"

section \<open>Awaited calls\<close>

text \<open>
  An awaited call into puppeteer or into the page returns a value, throws, or never
  settles. Code that runs against a state \<open>'s\<close> is a function from the state to an
  outcome and the state it leaves behind; \<open>and_then\<close> is sequencing, where a throw or a
  promise that never settles ends the function.
\<close>

datatype 'a outcome = Done 'a | Raised js_error | Pending

definition and_then ::
  "('s \<Rightarrow> 'a outcome \<times> 's) \<Rightarrow> ('a \<Rightarrow> 's \<Rightarrow> 'b outcome \<times> 's) \<Rightarrow> 's \<Rightarrow> 'b outcome \<times> 's" where
  "and_then m f s =
    (case m s of
       (Done a, s') \<Rightarrow> f a s'
     | (Raised e, s') \<Rightarrow> (Raised e, s')
     | (Pending, s') \<Rightarrow> (Pending, s'))"

definition try_catch ::
  "('s \<Rightarrow> 'a outcome \<times> 's) \<Rightarrow> (js_error \<Rightarrow> 's \<Rightarrow> 'a outcome \<times> 's) \<Rightarrow> 's \<Rightarrow> 'a outcome \<times> 's" where
  "try_catch m h s =
    (case m s of
       (Raised e, s') \<Rightarrow> h e s'
     | r \<Rightarrow> r)"

definition await :: "'a outcome \<Rightarrow> 's \<Rightarrow> 'a outcome \<times> 's" where
  "await r s = (r, s)"

definition return :: "'a \<Rightarrow> 's \<Rightarrow> 'a outcome \<times> 's" where
  "return a s = (Done a, s)"

definition throw :: "js_error \<Rightarrow> 's \<Rightarrow> 'a outcome \<times> 's" where
  "throw e s = (Raised e, s)"

section \<open>initialize and destroy\<close>

text \<open>
  The fields of the client object that Client.js assigns after construction. The
  constructor sets \<open>pupBrowser\<close> and \<open>pupPage\<close> to null; \<open>info\<close> is undefined until
  \<open>initialize\<close> assigns it. \<open>new ClientInfo(this, data)\<close> is kept as a constructor.
\<close>

datatype 'c client_info = ClientInfo 'c

record ('p, 'b, 'c) client =
  pupBrowser :: "'b option"
  pupPage :: "'p option"
  info :: "'c client_info option"

text \<open>The host side while \<open>initialize\<close> runs: the client object and what has been emitted or logged so far.\<close>

record ('r, 'p, 'b, 'c) host =
  this :: "('p, 'b, 'c) client"
  trace :: "'r effect list"

text \<open>
  What the page answers to each awaited call of \<open>initialize\<close>, in the order of the calls:
  the two injections, the read of \<open>window.localStorage\<close> (a JSON string, parsed by
  \<open>JSON.parse\<close>), the wait for \<open>window.Store\<close>, the read of \<open>Store.Conn\<close>, the
  calls of \<open>exposeFunction\<close> by name, and the evaluation that subscribes the listeners.
\<close>

record 'c page_replies =
  evaluate_ExposeStore :: "unit outcome"
  evaluate_localStorage :: "string outcome"
  JSON_parse :: "string \<Rightarrow> (string \<Rightarrow> string option) outcome"
  waitForFunction_Store :: "unit outcome"
  evaluate_LoadUtils :: "unit outcome"
  evaluate_Conn_serialize :: "'c outcome"
  exposeFunction :: "string \<Rightarrow> unit outcome"
  evaluate_listeners :: "unit outcome"

definition emit :: "'r event \<Rightarrow> ('r, 'p, 'b, 'c) host \<Rightarrow> unit outcome \<times> ('r, 'p, 'b, 'c) host" where
  "emit ev h = (Done (), h\<lparr>trace := trace h @ [Emit ev]\<rparr>)"

definition console_log :: "js_error \<Rightarrow> ('r, 'p, 'b, 'c) host \<Rightarrow> unit outcome \<times> ('r, 'p, 'b, 'c) host" where
  "console_log e h = (Done (), h\<lparr>trace := trace h @ [ConsoleLog e]\<rparr>)"

definition set_info :: "'c client_info \<Rightarrow> ('r, 'p, 'b, 'c) host \<Rightarrow> unit outcome \<times> ('r, 'p, 'b, 'c) host" where
  "set_info i h = (Done (), h\<lparr>this := (this h)\<lparr>info := Some i\<rparr>\<rparr>)"

definition set_pup :: "'b \<Rightarrow> 'p \<Rightarrow> ('r, 'p, 'b, 'c) host \<Rightarrow> unit outcome \<times> ('r, 'p, 'b, 'c) host" where
  "set_pup browser page h =
    (Done (), h\<lparr>this := (this h)\<lparr>pupBrowser := Some browser, pupPage := Some page\<rparr>\<rparr>)"

definition initialize ::
  "'c page_replies \<Rightarrow> 'p \<Rightarrow> 'b \<Rightarrow> ('r, 'p, 'b, 'c) host \<Rightarrow> unit outcome \<times> ('r, 'p, 'b, 'c) host" where
  "initialize reply page browser =
    and_then (try_catch (await (evaluate_ExposeStore reply)) (\<lambda>e. console_log e)) (\<lambda>_.
    and_then (await (evaluate_localStorage reply)) (\<lambda>json.
    and_then (await (JSON_parse reply json)) (\<lambda>localStorage.
    and_then (emit (AUTHENTICATED
        \<lparr>WABrowserId = localStorage ''WABrowserId'',
         WASecretBundle = localStorage ''WASecretBundle'',
         WAToken1 = localStorage ''WAToken1'',
         WAToken2 = localStorage ''WAToken2''\<rparr>)) (\<lambda>_.
    and_then (await (waitForFunction_Store reply)) (\<lambda>_.
    and_then (await (evaluate_LoadUtils reply)) (\<lambda>_.
    and_then (await (evaluate_Conn_serialize reply)) (\<lambda>conn.
    and_then (set_info (ClientInfo conn)) (\<lambda>_.
    and_then (await (exposeFunction reply ''onAddMessageEvent'')) (\<lambda>_.
    and_then (await (exposeFunction reply ''onChangeMessageTypeEvent'')) (\<lambda>_.
    and_then (await (exposeFunction reply ''onChangeMessageEvent'')) (\<lambda>_.
    and_then (await (exposeFunction reply ''onRemoveMessageEvent'')) (\<lambda>_.
    and_then (await (exposeFunction reply ''onMessageAckEvent'')) (\<lambda>_.
    and_then (await (exposeFunction reply ''onAppStateChangedEvent'')) (\<lambda>_.
    and_then (await (evaluate_listeners reply)) (\<lambda>_.
    and_then (set_pup browser page) (\<lambda>_.
    emit READY))))))))))))))))"

definition KEEP_PHONE_CONNECTED_IMG_SELECTOR :: string where
  \<open>KEEP_PHONE_CONNECTED_IMG_SELECTOR = ''[data-asset-intro-image="true"]''\<close>

text \<open>
  \<open>destroy\<close> calls \<open>page.waitForSelector\<close>, but \<open>page\<close> is neither a parameter nor a
  local of \<open>destroy\<close>, nor declared at the top of the module (\<open>page\<close> is a parameter of
  \<open>initialize\<close> only, stored as \<open>this.pupPage\<close>). The identifier is therefore looked up
  in the global scope: \<open>page_in_scope\<close> is the binding found there, if any. An unbound
  identifier throws a ReferenceError. The option \<open>timeout: 0\<close> is passed as the number.
\<close>

definition destroy ::
  "'p option \<Rightarrow> ('p \<Rightarrow> string \<Rightarrow> nat \<Rightarrow> unit outcome) \<Rightarrow> 's \<Rightarrow> unit outcome \<times> 's" where
  "destroy page_in_scope waitForSelector =
    (case page_in_scope of
       None \<Rightarrow> throw (ReferenceError ''page'')
     | Some page \<Rightarrow> await (waitForSelector page KEEP_PHONE_CONNECTED_IMG_SELECTOR 0))"

section \<open>sendMessage\<close>

text \<open>
  Chat objects live in the page and are shared by reference: \<open>Store.Chat.models\<close> is a
  list of references, and the helper \<open>WWebJS.sendMessage\<close> receives a reference. The
  page's chat store is a heap of chat objects and the list of references. Of a chat
  object only \<open>id\<close> is read or written by Client.js.
\<close>

type_synonym wid = string

type_synonym addr = nat

record 'x chat =
  chat_id :: wid
  chat_rest :: 'x

record 'x store =
  heap :: "addr \<Rightarrow> 'x chat"
  models :: "addr list"

text \<open>The argument \<open>content\<close>, by the \<open>instanceof\<close> tests made on it.\<close>

datatype ('md, 'loc) content = Text string | Media 'md | Loc 'loc

record contact =
  contact_id_serialized :: string

record 'md send_options =
  opt_caption :: "string option"
  opt_quotedMessageId :: "string option"
  opt_mentions :: "contact list option"
  opt_media :: "'md option"
  opt_sendSeen :: "bool option"

record ('md, 'loc) internal_options =
  io_caption :: "('md, 'loc) content option"
  io_quotedMessageId :: "string option"
  io_mentionedJidList :: "string list"
  io_attachment :: "'md option"
  io_location :: "'loc option"

text \<open>
  What the script uses of the page: \<open>Store.Chat.get\<close> and the helpers
  \<open>WWebJS.getNumberId\<close>, \<open>WWebJS.sendSeen\<close> and \<open>WWebJS.sendMessage\<close> of the injected
  script, and \<open>serialize\<close> of the message the helper returns. They are parameters.
  \<open>getNumberId\<close> answers with a canonical identity or with nothing. \<open>WWebJS.sendMessage\<close>
  is called with three arguments on one path and four on the other; the fourth is
  \<open>None\<close> when it is not passed. The helper may change the store in any way.
\<close>

record ('x, 'm, 'r, 'md, 'loc) page_api =
  Chat_get :: "'x store \<Rightarrow> string \<Rightarrow> addr option"
  getNumberId :: "'x store \<Rightarrow> string \<Rightarrow> wid option outcome"
  WWebJS_sendSeen :: "string \<Rightarrow> 'x store \<Rightarrow> 'x store"
  WWebJS_sendMessage ::
    "addr \<Rightarrow> ('md, 'loc) content \<Rightarrow> ('md, 'loc) internal_options \<Rightarrow> bool option \<Rightarrow>
     'x store \<Rightarrow> 'm outcome \<times> 'x store"
  serialize :: "'m \<Rightarrow> 'r raw_msg"

definition set_chat_id :: "addr \<Rightarrow> wid \<Rightarrow> 'x store \<Rightarrow> 'x store" where
  "set_chat_id a w s = s\<lparr>heap := (heap s)(a := (heap s a)\<lparr>chat_id := w\<rparr>)\<rparr>"

text \<open>
  The function that \<open>sendMessage\<close> evaluates in the page. \<open>msg\<close> is declared without a
  value and assigned on two of the paths; the last line calls \<open>msg.serialize()\<close>, which
  throws a TypeError when \<open>msg\<close> is still undefined.
\<close>

definition sendMessage_in_page ::
  "('x, 'm, 'r, 'md, 'loc) page_api \<Rightarrow> string \<Rightarrow> ('md, 'loc) content \<Rightarrow>
   ('md, 'loc) internal_options \<Rightarrow> bool \<Rightarrow> 'x store \<Rightarrow> 'r raw_msg outcome \<times> 'x store" where
  "sendMessage_in_page api chatId message options sendSeen =
    and_then
      (\<lambda>s. case Chat_get api s chatId of
         None \<Rightarrow>
           and_then (await (getNumberId api s chatId)) (\<lambda>newChatId.
             case newChatId of
               None \<Rightarrow> return None
             | Some newChatId \<Rightarrow>
                 (\<lambda>s. case models s of
                    [] \<Rightarrow> throw (Thrown ''Chat List empty! Need at least one open conversation with any of your contact'') s
                  | chat # _ \<Rightarrow>
                      (let originalChatObjId = chat_id (heap s chat) in
                       and_then (WWebJS_sendMessage api chat message options None)
                         (\<lambda>msg s. (Done (Some msg), set_chat_id chat originalChatObjId s))
                         (set_chat_id chat newChatId s)))) s
       | Some chat \<Rightarrow>
           and_then (WWebJS_sendMessage api chat message options (Some sendSeen))
             (\<lambda>msg. return (Some msg))
             (if sendSeen then WWebJS_sendSeen api chatId s else s))
      (\<lambda>msg. case msg of
         None \<Rightarrow> throw (TypeError ''msg is undefined'')
       | Some msg \<Rightarrow> return (serialize api msg))"

text \<open>
  The host side of \<open>sendMessage\<close>. Its first part builds \<open>internalOptions\<close> and
  replaces \<open>content\<close> according to the three content modes; the pair of both, as they
  are when the page is called, is \<open>internalOptions_and_content\<close>. In the second mode
  the caption becomes the content itself. \<open>sendSeen\<close> defaults to true.
\<close>

definition internalOptions_and_content ::
  "('md, 'loc) content \<Rightarrow> 'md send_options \<Rightarrow> ('md, 'loc) internal_options \<times> ('md, 'loc) content" where
  "internalOptions_and_content content options =
    (let internalOptions =
           \<lparr>io_caption = map_option Text (opt_caption options),
            io_quotedMessageId = opt_quotedMessageId options,
            io_mentionedJidList =
              (case opt_mentions options of
                 Some cs \<Rightarrow> map contact_id_serialized cs
               | None \<Rightarrow> []),
            io_attachment = None,
            io_location = None\<rparr>
     in case content of
          Media m \<Rightarrow> (internalOptions\<lparr>io_attachment := Some m\<rparr>, Text [])
        | _ \<Rightarrow>
            (case opt_media options of
               Some m \<Rightarrow> (internalOptions\<lparr>io_attachment := Some m, io_caption := Some content\<rparr>, content)
             | None \<Rightarrow>
                 (case content of
                    Loc l \<Rightarrow> (internalOptions\<lparr>io_location := Some l\<rparr>, Text [])
                  | _ \<Rightarrow> (internalOptions, content))))"

text \<open>
  The second part evaluates the function above in the page (an error thrown there
  rejects the call) and builds a \<open>Message\<close> from the result. \<open>this.pupPage\<close> is null
  until \<open>initialize\<close> has assigned it.
\<close>

definition sendMessage ::
  "('x, 'm, 'r, 'md, 'loc) page_api \<Rightarrow> ('p, 'b, 'c) client \<Rightarrow> string \<Rightarrow> ('md, 'loc) content \<Rightarrow>
   'md send_options \<Rightarrow> 'x store \<Rightarrow> 'r message outcome \<times> 'x store" where
  "sendMessage api client chatId content options =
    (let (internalOptions, content') = internalOptions_and_content content options;
         sendSeen = (case opt_sendSeen options of None \<Rightarrow> True | Some b \<Rightarrow> b)
     in case pupPage client of
          None \<Rightarrow> throw (TypeError ''this.pupPage is null'')
        | Some _ \<Rightarrow>
            and_then (sendMessage_in_page api chatId content' internalOptions sendSeen)
              (\<lambda>newMessage. return (Message newMessage)))"

text \<open>
  Two instances of the page's helpers, used to run \<open>sendMessage\<close> on concrete stores.
  In both, no chat is found by \<open>Store.Chat.get\<close>, marking seen does nothing and the
  send helper returns the identity of the chat it was given, leaving the store alone.
  In \<open>api_unresolvable\<close> the destination has no canonical identity; in
  \<open>api_resolvable\<close> it resolves to itself followed by \<open>@c.us\<close>.
\<close>

definition api_unresolvable :: "(unit, string, unit, unit, unit) page_api" where
  "api_unresolvable =
    \<lparr>Chat_get = (\<lambda>s c. None),
     getNumberId = (\<lambda>s c. Done None),
     WWebJS_sendSeen = (\<lambda>c s. s),
     WWebJS_sendMessage = (\<lambda>a m opts seen s. (Done (chat_id (heap s a)), s)),
     serialize = (\<lambda>m. \<lparr>isNewMsg = True, msg_type = ''chat'', subtype = None,
       msg_id = \<lparr>fromMe = True, id_str = m\<rparr>, rest = ()\<rparr>)\<rparr>"

definition api_resolvable :: "(unit, string, unit, unit, unit) page_api" where
  "api_resolvable = api_unresolvable\<lparr>getNumberId := (\<lambda>s c. Done (Some (c @ ''@c.us'')))\<rparr>"

text \<open>
  Two stores of the page: one with no chat at all, and one whose list holds a single chat
  with the identity \<open>555@c.us\<close>.
\<close>

definition empty_store :: "unit store" where
  "empty_store = \<lparr>heap = (\<lambda>a. \<lparr>chat_id = [], chat_rest = ()\<rparr>), models = []\<rparr>"

definition one_chat_store :: "unit store" where
  "one_chat_store = \<lparr>heap = (\<lambda>a. \<lparr>chat_id = ''555@c.us'', chat_rest = ()\<rparr>), models = [0]\<rparr>"

text \<open>A page that answers every awaited call of \<open>initialize\<close>, with an empty local storage.\<close>

definition replies_ok :: "string page_replies" where
  "replies_ok =
    \<lparr>evaluate_ExposeStore = Done (),
     evaluate_localStorage = Done ''{}'',
     JSON_parse = (\<lambda>json. Done (\<lambda>key. None)),
     waitForFunction_Store = Done (),
     evaluate_LoadUtils = Done (),
     evaluate_Conn_serialize = Done ''conn'',
     exposeFunction = (\<lambda>name. Done ()),
     evaluate_listeners = Done ()\<rparr>"

text \<open>
  For the proofs about \<open>last_message\<close>: the cached record, if there is one, does not carry
  the identifier \<open>k\<close>.
\<close>

definition other_key :: "string \<Rightarrow> 'r raw_msg option \<Rightarrow> bool" where
  "other_key k lm = (case lm of None \<Rightarrow> True | Some x \<Rightarrow> id_str (msg_id x) \<noteq> k)"

section \<open>Sequences of notifications\<close>

lemma deliver_all_append:
  "deliver_all W lm (xs @ ys) =
    (fst (deliver_all W lm xs) @ fst (deliver_all W (snd (deliver_all W lm xs)) ys),
     snd (deliver_all W (snd (deliver_all W lm xs)) ys))"
  by (induction xs arbitrary: lm) (simp_all add: split_beta)

lemma snd_deliver_all_append:
  "snd (deliver_all W lm (xs @ ys)) = snd (deliver_all W (snd (deliver_all W lm xs)) ys)"
  by (simp add: deliver_all_append)

lemma deliver_all_snoc:
  "deliver_all W lm (ns @ [n]) =
    (fst (deliver_all W lm ns) @ fst (deliver W (snd (deliver_all W lm ns)) n),
     snd (deliver W (snd (deliver_all W lm ns)) n))"
  by (simp add: deliver_all_append split_beta)

text \<open>Only a \<open>change\<close> of a record that is not revoked writes \<open>last_message\<close>.\<close>

lemma deliver_keeps_last_message:
  "(\<And>x. n = Msg_change x \<Longrightarrow> msg_type x = ''revoked'') \<Longrightarrow> snd (deliver W lm n) = lm"
  by (cases n) (simp_all add: onChangeMessageEvent_def)

lemma deliver_all_keeps_last_message:
  "\<forall>x. Msg_change x \<in> set ns \<longrightarrow> msg_type x = ''revoked'' \<Longrightarrow> snd (deliver_all W lm ns) = lm"
proof (induction ns arbitrary: lm)
  case Nil
  show ?case by simp
next
  case (Cons n ns)
  have a: "msg_type x = ''revoked''" if "n = Msg_change x" for x
  proof -
    have "Msg_change x \<in> set (n # ns)" unfolding that by (rule list.set_intros(1))
    with Cons.prems show ?thesis by blast
  qed
  have b: "\<forall>x. Msg_change x \<in> set ns \<longrightarrow> msg_type x = ''revoked''"
    using Cons.prems list.set_intros(2) by metis
  have "snd (deliver W lm n) = lm"
    using a by (rule deliver_keeps_last_message)
  moreover have "snd (deliver_all W lm ns) = lm"
    using b by (rule Cons.IH)
  ultimately show ?case by (simp add: split_beta)
qed

lemma deliver_other_key:
  "other_key k lm \<Longrightarrow>
   (\<And>x. n = Msg_change x \<Longrightarrow> msg_type x \<noteq> ''revoked'' \<Longrightarrow> id_str (msg_id x) \<noteq> k) \<Longrightarrow>
   other_key k (snd (deliver W lm n))"
  by (cases n) (simp_all add: onChangeMessageEvent_def other_key_def)

lemma deliver_all_other_key:
  "other_key k lm \<Longrightarrow>
   \<forall>x. Msg_change x \<in> set ns \<and> msg_type x \<noteq> ''revoked'' \<longrightarrow> id_str (msg_id x) \<noteq> k \<Longrightarrow>
   other_key k (snd (deliver_all W lm ns))"
proof (induction ns arbitrary: lm)
  case Nil
  then show ?case by simp
next
  case (Cons n ns)
  have a: "id_str (msg_id x) \<noteq> k" if "n = Msg_change x" and "msg_type x \<noteq> ''revoked''" for x
  proof -
    have "Msg_change x \<in> set (n # ns)" unfolding that(1) by (rule list.set_intros(1))
    with Cons.prems(2) that(2) show ?thesis by blast
  qed
  have b: "\<forall>x. Msg_change x \<in> set ns \<and> msg_type x \<noteq> ''revoked'' \<longrightarrow> id_str (msg_id x) \<noteq> k"
    using Cons.prems(2) list.set_intros(2) by metis
  have "other_key k (snd (deliver W lm n))"
    using Cons.prems(1) a by (rule deliver_other_key)
  then have "other_key k (snd (deliver_all W (snd (deliver W lm n)) ns))"
    using b by (rule Cons.IH)
  then show ?case by (simp add: split_beta)
qed

lemma revoked_with_other_key:
  "other_key (id_str (msg_id r)) lm \<Longrightarrow> msg_type r = ''revoked'' \<Longrightarrow>
   onChangeMessageTypeEvent lm r = [Emit (MESSAGE_REVOKED_EVERYONE (Message r) None)]"
  by (cases lm) (simp_all add: onChangeMessageTypeEvent_def other_key_def)

section \<open>Properties of the event bridge\<close>

text \<open>
  Claim C1. A \<open>change\<close> of a record \<open>m\<close> that is not revoked, followed by the \<open>change:type\<close>
  of a revoked record \<open>r\<close> with the same identifier, with no \<open>change\<close> of a record that is
  not revoked in between (whatever came before, and whatever other notifications lie in
  between), makes the bridge emit \<open>message_revoke_everyone\<close> with \<open>r\<close> and with the
  snapshot \<open>m\<close> taken at the first change. And when, since the start of the session, no
  \<open>change\<close> of a record that is not revoked carried the identifier of \<open>r\<close>, the event is
  emitted with \<open>r\<close> and without a previous state.
\<close>

theorem revocation_reconstruction:
  "(msg_type m \<noteq> ''revoked'' \<and> msg_type r = ''revoked'' \<and> id_str (msg_id r) = id_str (msg_id m) \<and>
    (\<forall>x. Msg_change x \<in> set mid \<longrightarrow> msg_type x = ''revoked'') \<longrightarrow>
    deliver_all W lm (pre @ [Msg_change m] @ mid @ [Msg_change_type r]) =
      (fst (deliver_all W lm (pre @ [Msg_change m] @ mid)) @
         [Emit (MESSAGE_REVOKED_EVERYONE (Message r) (Some (Message m)))],
       Some m)) \<and>
   (msg_type r = ''revoked'' \<and>
    (\<forall>x. Msg_change x \<in> set pre \<and> msg_type x \<noteq> ''revoked'' \<longrightarrow> id_str (msg_id x) \<noteq> id_str (msg_id r)) \<longrightarrow>
    deliver_all W None (pre @ [Msg_change_type r]) =
      (fst (deliver_all W None pre) @ [Emit (MESSAGE_REVOKED_EVERYONE (Message r) None)],
       snd (deliver_all W None pre)))"
proof (intro conjI impI)
  assume h: "msg_type m \<noteq> ''revoked'' \<and> msg_type r = ''revoked'' \<and>
    id_str (msg_id r) = id_str (msg_id m) \<and>
    (\<forall>x. Msg_change x \<in> set mid \<longrightarrow> msg_type x = ''revoked'')"
  then have m: "msg_type m \<noteq> ''revoked''" and r: "msg_type r = ''revoked''"
    and k: "id_str (msg_id r) = id_str (msg_id m)"
    and mid: "\<forall>x. Msg_change x \<in> set mid \<longrightarrow> msg_type x = ''revoked''"
    by blast+
  let ?ns = "(pre @ [Msg_change m]) @ mid"
  have cached: "snd (deliver_all W lm (pre @ [Msg_change m])) = Some m"
    unfolding deliver_all_snoc using m by (simp add: onChangeMessageEvent_def)
  have kept: "snd (deliver_all W lm ?ns) = Some m"
    unfolding snd_deliver_all_append [of W lm "pre @ [Msg_change m]" mid] cached
    using mid by (rule deliver_all_keeps_last_message)
  have "deliver_all W lm (?ns @ [Msg_change_type r]) =
      (fst (deliver_all W lm ?ns) @
         [Emit (MESSAGE_REVOKED_EVERYONE (Message r) (Some (Message m)))],
       Some m)"
    unfolding deliver_all_snoc [of W lm ?ns] kept
    using r k by (simp add: onChangeMessageTypeEvent_def)
  then show "deliver_all W lm (pre @ [Msg_change m] @ mid @ [Msg_change_type r]) =
      (fst (deliver_all W lm (pre @ [Msg_change m] @ mid)) @
         [Emit (MESSAGE_REVOKED_EVERYONE (Message r) (Some (Message m)))],
       Some m)"
    by (simp only: append_assoc)
next
  assume h: "msg_type r = ''revoked'' \<and>
    (\<forall>x. Msg_change x \<in> set pre \<and> msg_type x \<noteq> ''revoked'' \<longrightarrow> id_str (msg_id x) \<noteq> id_str (msg_id r))"
  then have r: "msg_type r = ''revoked''"
    and pre: "\<forall>x. Msg_change x \<in> set pre \<and> msg_type x \<noteq> ''revoked'' \<longrightarrow> id_str (msg_id x) \<noteq> id_str (msg_id r)"
    by blast+
  have "other_key (id_str (msg_id r)) None"
    by (simp add: other_key_def)
  then have "other_key (id_str (msg_id r)) (snd (deliver_all W None pre))"
    using pre by (rule deliver_all_other_key)
  then have "onChangeMessageTypeEvent (snd (deliver_all W None pre)) r =
      [Emit (MESSAGE_REVOKED_EVERYONE (Message r) None)]"
    using r by (rule revoked_with_other_key)
  then show "deliver_all W None (pre @ [Msg_change_type r]) =
      (fst (deliver_all W None pre) @ [Emit (MESSAGE_REVOKED_EVERYONE (Message r) None)],
       snd (deliver_all W None pre))"
    unfolding deliver_all_snoc by simp
qed

text \<open>
  An instance: a session sees a change of message \<open>77AA\<close>, then a change of message
  \<open>3EB0\<close>, an ack for it, and its revocation, which carries the snapshot of \<open>3EB0\<close>; and a
  session that saw only the change of \<open>77AA\<close> before \<open>3EB0\<close> is revoked emits no
  previous state.
\<close>

theorem revocation_reconstruction_witness:
  "deliver_all \<lparr>CONNECTED = ''CONNECTED'', OPENING = ''OPENING'', PAIRING = ''PAIRING'', TIMEOUT = ''TIMEOUT''\<rparr>
     None
     [Msg_change \<lparr>isNewMsg = True, msg_type = ''chat'', subtype = None,
                  msg_id = \<lparr>fromMe = False, id_str = ''77AA''\<rparr>, rest = ''other''\<rparr>,
      Msg_change \<lparr>isNewMsg = True, msg_type = ''chat'', subtype = None,
                  msg_id = \<lparr>fromMe = False, id_str = ''3EB0''\<rparr>, rest = ''hello''\<rparr>,
      Msg_change_ack \<lparr>isNewMsg = True, msg_type = ''chat'', subtype = None,
                  msg_id = \<lparr>fromMe = False, id_str = ''3EB0''\<rparr>, rest = ''hello''\<rparr> 2,
      Msg_change_type \<lparr>isNewMsg = False, msg_type = ''revoked'', subtype = None,
                  msg_id = \<lparr>fromMe = False, id_str = ''3EB0''\<rparr>, rest = ''''\<rparr>]
   = ([Emit (MESSAGE_ACK (Message \<lparr>isNewMsg = True, msg_type = ''chat'', subtype = None,
                  msg_id = \<lparr>fromMe = False, id_str = ''3EB0''\<rparr>, rest = ''hello''\<rparr>) 2),
       Emit (MESSAGE_REVOKED_EVERYONE
          (Message \<lparr>isNewMsg = False, msg_type = ''revoked'', subtype = None,
                  msg_id = \<lparr>fromMe = False, id_str = ''3EB0''\<rparr>, rest = ''''\<rparr>)
          (Some (Message \<lparr>isNewMsg = True, msg_type = ''chat'', subtype = None,
                  msg_id = \<lparr>fromMe = False, id_str = ''3EB0''\<rparr>, rest = ''hello''\<rparr>)))],
      Some \<lparr>isNewMsg = True, msg_type = ''chat'', subtype = None,
                  msg_id = \<lparr>fromMe = False, id_str = ''3EB0''\<rparr>, rest = ''hello''\<rparr>)
   \<and>
   deliver_all \<lparr>CONNECTED = ''CONNECTED'', OPENING = ''OPENING'', PAIRING = ''PAIRING'', TIMEOUT = ''TIMEOUT''\<rparr>
     None
     [Msg_change \<lparr>isNewMsg = True, msg_type = ''chat'', subtype = None,
                  msg_id = \<lparr>fromMe = False, id_str = ''77AA''\<rparr>, rest = ''other''\<rparr>,
      Msg_change_type \<lparr>isNewMsg = False, msg_type = ''revoked'', subtype = None,
                  msg_id = \<lparr>fromMe = False, id_str = ''3EB0''\<rparr>, rest = ''''\<rparr>]
   = ([Emit (MESSAGE_REVOKED_EVERYONE
          (Message \<lparr>isNewMsg = False, msg_type = ''revoked'', subtype = None,
                  msg_id = \<lparr>fromMe = False, id_str = ''3EB0''\<rparr>, rest = ''''\<rparr>)
          None)],
      Some \<lparr>isNewMsg = True, msg_type = ''chat'', subtype = None,
                  msg_id = \<lparr>fromMe = False, id_str = ''77AA''\<rparr>, rest = ''other''\<rparr>)"
  using
    revocation_reconstruction [where
      m = "\<lparr>isNewMsg = True, msg_type = ''chat'', subtype = None,
                  msg_id = \<lparr>fromMe = False, id_str = ''3EB0''\<rparr>, rest = ''hello''\<rparr>"
      and r = "\<lparr>isNewMsg = False, msg_type = ''revoked'', subtype = None,
                  msg_id = \<lparr>fromMe = False, id_str = ''3EB0''\<rparr>, rest = ''''\<rparr>"
      and mid = "[Msg_change_ack \<lparr>isNewMsg = True, msg_type = ''chat'', subtype = None,
                  msg_id = \<lparr>fromMe = False, id_str = ''3EB0''\<rparr>, rest = ''hello''\<rparr> 2]"
      and pre = "[Msg_change \<lparr>isNewMsg = True, msg_type = ''chat'', subtype = None,
                  msg_id = \<lparr>fromMe = False, id_str = ''77AA''\<rparr>, rest = ''other''\<rparr>]"
      and lm = None
      and W = "\<lparr>CONNECTED = ''CONNECTED'', OPENING = ''OPENING'', PAIRING = ''PAIRING'', TIMEOUT = ''TIMEOUT''\<rparr>"]
  by (simp add: onChangeMessageEvent_def onChangeMessageTypeEvent_def onMessageAckEvent_def)

text \<open>
  Claim C3. A change of the connection state to one of \<open>CONNECTED\<close>, \<open>OPENING\<close>,
  \<open>PAIRING\<close>, \<open>TIMEOUT\<close> emits \<open>change_state\<close> and nothing else. A change to any other
  state emits \<open>change_state\<close>, then \<open>disconnected\<close>, and then calls \<open>destroy\<close>.
\<close>

theorem app_state_changed_events:
  "(state \<in> {CONNECTED WAState, OPENING WAState, PAIRING WAState, TIMEOUT WAState} \<longrightarrow>
      deliver WAState lm (AppState_change_state state) = ([Emit (STATE_CHANGED state)], lm)) \<and>
   (state \<notin> {CONNECTED WAState, OPENING WAState, PAIRING WAState, TIMEOUT WAState} \<longrightarrow>
      deliver WAState lm (AppState_change_state state) =
        ([Emit (STATE_CHANGED state), Emit (DISCONNECTED state), Destroy], lm))"
  by (simp add: onAppStateChangedEvent_def ACCEPTED_STATES_def)

theorem app_state_changed_events_witness:
  "(''TIMEOUT'' \<in> {''CONNECTED'', ''OPENING'', ''PAIRING'', ''TIMEOUT''} \<and>
    deliver \<lparr>CONNECTED = ''CONNECTED'', OPENING = ''OPENING'', PAIRING = ''PAIRING'', TIMEOUT = ''TIMEOUT''\<rparr>
      (None :: unit raw_msg option) (AppState_change_state ''TIMEOUT'') =
      ([Emit (STATE_CHANGED ''TIMEOUT'')], None)) \<and>
   (''UNPAIRED'' \<notin> {''CONNECTED'', ''OPENING'', ''PAIRING'', ''TIMEOUT''} \<and>
    deliver \<lparr>CONNECTED = ''CONNECTED'', OPENING = ''OPENING'', PAIRING = ''PAIRING'', TIMEOUT = ''TIMEOUT''\<rparr>
      (None :: unit raw_msg option) (AppState_change_state ''UNPAIRED'') =
      ([Emit (STATE_CHANGED ''UNPAIRED''), Emit (DISCONNECTED ''UNPAIRED''), Destroy], None))"
  using
    app_state_changed_events [where state = "''TIMEOUT''" and lm = "None :: unit raw_msg option"
      and WAState = "\<lparr>CONNECTED = ''CONNECTED'', OPENING = ''OPENING'', PAIRING = ''PAIRING'', TIMEOUT = ''TIMEOUT''\<rparr>"]
    app_state_changed_events [where state = "''UNPAIRED''" and lm = "None :: unit raw_msg option"
      and WAState = "\<lparr>CONNECTED = ''CONNECTED'', OPENING = ''OPENING'', PAIRING = ''PAIRING'', TIMEOUT = ''TIMEOUT''\<rparr>"]
  by simp

text \<open>
  Claim C4, as stated, fails: a new record of type \<open>gp2\<close> is a group notification, for
  which \<open>message_create\<close> is not emitted.
\<close>

theorem add_message_counterexample:
  "isNewMsg \<lparr>isNewMsg = True, msg_type = ''gp2'', subtype = Some ''add'',
       msg_id = \<lparr>fromMe = False, id_str = ''A1''\<rparr>, rest = ()\<rparr> \<and>
   Emit (MESSAGE_CREATE (Message \<lparr>isNewMsg = True, msg_type = ''gp2'', subtype = Some ''add'',
       msg_id = \<lparr>fromMe = False, id_str = ''A1''\<rparr>, rest = ()\<rparr>))
     \<notin> set (fst (deliver
         \<lparr>CONNECTED = ''CONNECTED'', OPENING = ''OPENING'', PAIRING = ''PAIRING'', TIMEOUT = ''TIMEOUT''\<rparr>
         None
         (Msg_add \<lparr>isNewMsg = True, msg_type = ''gp2'', subtype = Some ''add'',
            msg_id = \<lparr>fromMe = False, id_str = ''A1''\<rparr>, rest = ()\<rparr>)))"
  by (simp add: onAddMessageEvent_def Let_def)

text \<open>
  Claim C4, amended. For a new record whose type is not \<open>gp2\<close>, an \<open>add\<close> notification
  emits \<open>message_create\<close>, followed by \<open>message\<close> (message received) unless the record is
  from the local user (\<open>id.fromMe\<close>), in which case \<open>message_create\<close> is all that is emitted.
\<close>

theorem add_message_create_received:
  "isNewMsg msg \<and> msg_type msg \<noteq> ''gp2'' \<Longrightarrow>
   deliver WAState lm (Msg_add msg) =
     ((if fromMe (msg_id msg) then [Emit (MESSAGE_CREATE (Message msg))]
       else [Emit (MESSAGE_CREATE (Message msg)), Emit (MESSAGE_RECEIVED (Message msg))]), lm)"
  by (simp add: onAddMessageEvent_def Let_def)

theorem add_message_create_received_witness:
  "deliver \<lparr>CONNECTED = ''CONNECTED'', OPENING = ''OPENING'', PAIRING = ''PAIRING'', TIMEOUT = ''TIMEOUT''\<rparr>
     None
     (Msg_add \<lparr>isNewMsg = True, msg_type = ''chat'', subtype = None,
        msg_id = \<lparr>fromMe = True, id_str = ''B2''\<rparr>, rest = ''hi''\<rparr>) =
     ([Emit (MESSAGE_CREATE (Message \<lparr>isNewMsg = True, msg_type = ''chat'', subtype = None,
        msg_id = \<lparr>fromMe = True, id_str = ''B2''\<rparr>, rest = ''hi''\<rparr>))], None) \<and>
   deliver \<lparr>CONNECTED = ''CONNECTED'', OPENING = ''OPENING'', PAIRING = ''PAIRING'', TIMEOUT = ''TIMEOUT''\<rparr>
     None
     (Msg_add \<lparr>isNewMsg = True, msg_type = ''chat'', subtype = None,
        msg_id = \<lparr>fromMe = False, id_str = ''B3''\<rparr>, rest = ''hi''\<rparr>) =
     ([Emit (MESSAGE_CREATE (Message \<lparr>isNewMsg = True, msg_type = ''chat'', subtype = None,
        msg_id = \<lparr>fromMe = False, id_str = ''B3''\<rparr>, rest = ''hi''\<rparr>)),
       Emit (MESSAGE_RECEIVED (Message \<lparr>isNewMsg = True, msg_type = ''chat'', subtype = None,
        msg_id = \<lparr>fromMe = False, id_str = ''B3''\<rparr>, rest = ''hi''\<rparr>))], None)"
  using
    add_message_create_received [where lm = None
      and WAState = "\<lparr>CONNECTED = ''CONNECTED'', OPENING = ''OPENING'', PAIRING = ''PAIRING'', TIMEOUT = ''TIMEOUT''\<rparr>"
      and msg = "\<lparr>isNewMsg = True, msg_type = ''chat'', subtype = None,
        msg_id = \<lparr>fromMe = True, id_str = ''B2''\<rparr>, rest = ''hi''\<rparr>"]
    add_message_create_received [where lm = None
      and WAState = "\<lparr>CONNECTED = ''CONNECTED'', OPENING = ''OPENING'', PAIRING = ''PAIRING'', TIMEOUT = ''TIMEOUT''\<rparr>"
      and msg = "\<lparr>isNewMsg = True, msg_type = ''chat'', subtype = None,
        msg_id = \<lparr>fromMe = False, id_str = ''B3''\<rparr>, rest = ''hi''\<rparr>"]
  by simp

text \<open>
  Claim C8. For a record whose \<open>isNewMsg\<close> is false, an \<open>add\<close> or a \<open>remove\<close>
  notification emits no event at all, so neither \<open>message_create\<close> nor \<open>message\<close> nor
  \<open>message_revoke_me\<close>: the page-side listener does not call the host, and the host
  function would return at once.
\<close>

theorem not_new_emits_nothing:
  "\<not> isNewMsg msg \<Longrightarrow>
   onAddMessageEvent msg = [] \<and> onRemoveMessageEvent msg = [] \<and>
   deliver WAState lm (Msg_add msg) = ([], lm) \<and>
   deliver WAState lm (Msg_remove msg) = ([], lm)"
  by (simp add: onAddMessageEvent_def onRemoveMessageEvent_def)

theorem not_new_emits_nothing_witness:
  "onAddMessageEvent \<lparr>isNewMsg = False, msg_type = ''chat'', subtype = None,
        msg_id = \<lparr>fromMe = False, id_str = ''C4''\<rparr>, rest = ''old''\<rparr> = [] \<and>
   onRemoveMessageEvent \<lparr>isNewMsg = False, msg_type = ''chat'', subtype = None,
        msg_id = \<lparr>fromMe = False, id_str = ''C4''\<rparr>, rest = ''old''\<rparr> = [] \<and>
   deliver \<lparr>CONNECTED = ''CONNECTED'', OPENING = ''OPENING'', PAIRING = ''PAIRING'', TIMEOUT = ''TIMEOUT''\<rparr>
     None
     (Msg_add \<lparr>isNewMsg = False, msg_type = ''chat'', subtype = None,
        msg_id = \<lparr>fromMe = False, id_str = ''C4''\<rparr>, rest = ''old''\<rparr>) = ([], None) \<and>
   deliver \<lparr>CONNECTED = ''CONNECTED'', OPENING = ''OPENING'', PAIRING = ''PAIRING'', TIMEOUT = ''TIMEOUT''\<rparr>
     None
     (Msg_remove \<lparr>isNewMsg = False, msg_type = ''chat'', subtype = None,
        msg_id = \<lparr>fromMe = False, id_str = ''C4''\<rparr>, rest = ''old''\<rparr>) = ([], None)"
  using
    not_new_emits_nothing [where lm = None
      and WAState = "\<lparr>CONNECTED = ''CONNECTED'', OPENING = ''OPENING'', PAIRING = ''PAIRING'', TIMEOUT = ''TIMEOUT''\<rparr>"
      and msg = "\<lparr>isNewMsg = False, msg_type = ''chat'', subtype = None,
        msg_id = \<lparr>fromMe = False, id_str = ''C4''\<rparr>, rest = ''old''\<rparr>"]
  by simp

text \<open>
  Claim C9. The same \<open>change:ack\<close> notification delivered twice emits two \<open>message_ack\<close>
  events with the same message and the same ack value, whatever \<open>last_message\<close> holds;
  nothing is filtered and nothing is remembered.
\<close>

theorem ack_twice_two_events:
  "deliver_all WAState lm [Msg_change_ack msg a, Msg_change_ack msg a] =
     ([Emit (MESSAGE_ACK (Message msg) a), Emit (MESSAGE_ACK (Message msg) a)], lm)"
  by (simp add: onMessageAckEvent_def Let_def)

text \<open>An instance: the same ack for a sent message, delivered twice.\<close>

theorem ack_twice_two_events_witness:
  "deliver_all \<lparr>CONNECTED = ''CONNECTED'', OPENING = ''OPENING'', PAIRING = ''PAIRING'', TIMEOUT = ''TIMEOUT''\<rparr>
     None
     [Msg_change_ack \<lparr>isNewMsg = True, msg_type = ''chat'', subtype = None,
        msg_id = \<lparr>fromMe = True, id_str = ''E6''\<rparr>, rest = ''sent''\<rparr> 3,
      Msg_change_ack \<lparr>isNewMsg = True, msg_type = ''chat'', subtype = None,
        msg_id = \<lparr>fromMe = True, id_str = ''E6''\<rparr>, rest = ''sent''\<rparr> 3] =
     ([Emit (MESSAGE_ACK (Message \<lparr>isNewMsg = True, msg_type = ''chat'', subtype = None,
        msg_id = \<lparr>fromMe = True, id_str = ''E6''\<rparr>, rest = ''sent''\<rparr>) 3),
       Emit (MESSAGE_ACK (Message \<lparr>isNewMsg = True, msg_type = ''chat'', subtype = None,
        msg_id = \<lparr>fromMe = True, id_str = ''E6''\<rparr>, rest = ''sent''\<rparr>) 3)], None)"
  using
    ack_twice_two_events [where lm = None and a = 3
      and WAState = "\<lparr>CONNECTED = ''CONNECTED'', OPENING = ''OPENING'', PAIRING = ''PAIRING'', TIMEOUT = ''TIMEOUT''\<rparr>"
      and msg = "\<lparr>isNewMsg = True, msg_type = ''chat'', subtype = None,
        msg_id = \<lparr>fromMe = True, id_str = ''E6''\<rparr>, rest = ''sent''\<rparr>"]
  by simp

text \<open>
  Claim C10. For a new record of type \<open>gp2\<close>, an \<open>add\<close> notification emits exactly one
  event, carrying the group notification: \<open>group_join\<close> for the subtypes \<open>add\<close> and
  \<open>invite\<close>, \<open>group_leave\<close> for \<open>remove\<close> and \<open>leave\<close>, \<open>group_update\<close> otherwise. So
  neither \<open>message_create\<close> nor \<open>message\<close> is emitted.
\<close>

theorem group_notification_single_event:
  "isNewMsg msg \<and> msg_type msg = ''gp2'' \<Longrightarrow>
   deliver WAState lm (Msg_add msg) =
     ([Emit (if subtype msg = Some ''add'' \<or> subtype msg = Some ''invite''
               then GROUP_JOIN (GroupNotification msg)
             else if subtype msg = Some ''remove'' \<or> subtype msg = Some ''leave''
               then GROUP_LEAVE (GroupNotification msg)
             else GROUP_UPDATE (GroupNotification msg))], lm)"
  by (simp add: onAddMessageEvent_def Let_def)

theorem group_notification_single_event_witness:
  "deliver \<lparr>CONNECTED = ''CONNECTED'', OPENING = ''OPENING'', PAIRING = ''PAIRING'', TIMEOUT = ''TIMEOUT''\<rparr>
     None
     (Msg_add \<lparr>isNewMsg = True, msg_type = ''gp2'', subtype = Some ''leave'',
        msg_id = \<lparr>fromMe = False, id_str = ''D5''\<rparr>, rest = ()\<rparr>) =
     ([Emit (GROUP_LEAVE (GroupNotification \<lparr>isNewMsg = True, msg_type = ''gp2'', subtype = Some ''leave'',
        msg_id = \<lparr>fromMe = False, id_str = ''D5''\<rparr>, rest = ()\<rparr>))], None)"
  using
    group_notification_single_event [where lm = None
      and WAState = "\<lparr>CONNECTED = ''CONNECTED'', OPENING = ''OPENING'', PAIRING = ''PAIRING'', TIMEOUT = ''TIMEOUT''\<rparr>"
      and msg = "\<lparr>isNewMsg = True, msg_type = ''gp2'', subtype = Some ''leave'',
        msg_id = \<lparr>fromMe = False, id_str = ''D5''\<rparr>, rest = ()\<rparr>"]
  by simp

section \<open>Properties of initialize and destroy\<close>

lemmas prog_defs = and_then_def try_catch_def await_def return_def throw_def
  emit_def console_log_def set_info_def set_pup_def

text \<open>\<open>ready\<close> is emitted by the last statement only, so a run that does not return has not emitted it.\<close>

lemma initialize_ready_only_when_done:
  "fst (initialize reply page browser h) \<noteq> Done () \<Longrightarrow> Emit READY \<notin> set (trace h) \<Longrightarrow>
   Emit READY \<notin> set (trace (snd (initialize reply page browser h)))"
  unfolding initialize_def prog_defs
  by (auto split: outcome.splits prod.splits)

lemma initialize_injection_failure:
  "evaluate_ExposeStore reply = Raised e0 \<Longrightarrow>
   initialize reply page browser h =
     initialize (reply\<lparr>evaluate_ExposeStore := Done ()\<rparr>) page browser
       (h\<lparr>trace := trace h @ [ConsoleLog e0]\<rparr>)"
  by (simp add: initialize_def prog_defs)

lemma initialize_bootstrap_failure:
  assumes "evaluate_ExposeStore reply \<noteq> Pending"
    and "evaluate_localStorage reply = Raised e \<or>
     (\<exists>json. evaluate_localStorage reply = Done json \<and>
       (JSON_parse reply json = Raised e \<or>
        (\<exists>localStorage. JSON_parse reply json = Done localStorage \<and>
          (waitForFunction_Store reply = Raised e \<or>
           (waitForFunction_Store reply = Done () \<and>
             (evaluate_LoadUtils reply = Raised e \<or>
              (evaluate_LoadUtils reply = Done () \<and>
                evaluate_Conn_serialize reply = Raised e)))))))"
  shows "fst (initialize reply page browser h) = Raised e"
proof -
  have "fst (try_catch (await (evaluate_ExposeStore reply)) (\<lambda>e. console_log e) h) = Done ()"
    using assms(1) by (cases "evaluate_ExposeStore reply") (simp_all add: prog_defs)
  then obtain h1 where
    h1: "try_catch (await (evaluate_ExposeStore reply)) (\<lambda>e. console_log e) h = (Done (), h1)"
    by (cases "try_catch (await (evaluate_ExposeStore reply)) (\<lambda>e. console_log e) h") simp
  show ?thesis
    unfolding initialize_def
      and_then_def [of "try_catch (await (evaluate_ExposeStore reply)) (\<lambda>e. console_log e)"] h1
    using assms(2) by (auto simp: and_then_def await_def emit_def)
qed

text \<open>
  Claim C6. When the first injection (\<open>ExposeStore\<close>) throws, the error is logged and
  \<open>initialize\<close> goes on exactly as if the injection had returned. When the injection
  has settled and the first step to throw is the read of local storage (the evaluation
  or the parsing of its result), the wait for the store, the injection of the helpers or
  the read of the connection descriptor, \<open>initialize\<close> throws that same error to its
  caller. And whenever \<open>initialize\<close> does not return, \<open>ready\<close> has not been emitted.
\<close>

theorem initialize_failures:
  "(evaluate_ExposeStore reply = Raised e0 \<longrightarrow>
      initialize reply page browser h =
        initialize (reply\<lparr>evaluate_ExposeStore := Done ()\<rparr>) page browser
          (h\<lparr>trace := trace h @ [ConsoleLog e0]\<rparr>)) \<and>
   (evaluate_ExposeStore reply \<noteq> Pending \<and>
    (evaluate_localStorage reply = Raised e \<or>
     (\<exists>json. evaluate_localStorage reply = Done json \<and>
       (JSON_parse reply json = Raised e \<or>
        (\<exists>localStorage. JSON_parse reply json = Done localStorage \<and>
          (waitForFunction_Store reply = Raised e \<or>
           (waitForFunction_Store reply = Done () \<and>
             (evaluate_LoadUtils reply = Raised e \<or>
              (evaluate_LoadUtils reply = Done () \<and>
                evaluate_Conn_serialize reply = Raised e)))))))) \<longrightarrow>
      fst (initialize reply page browser h) = Raised e) \<and>
   (fst (initialize reply page browser h) \<noteq> Done () \<and> Emit READY \<notin> set (trace h) \<longrightarrow>
      Emit READY \<notin> set (trace (snd (initialize reply page browser h))))"
  using initialize_injection_failure [of reply e0 page browser h]
    initialize_bootstrap_failure [of reply e page browser h]
    initialize_ready_only_when_done [of reply page browser h]
  by blast

text \<open>
  Two runs on a fresh client: one where only the first injection throws, which logs the
  error and reaches \<open>ready\<close>; one where the injection of the helpers throws, which
  rejects with that error after \<open>authenticated\<close> and leaves the client as it was.
\<close>

theorem initialize_failures_witness:
  "initialize (replies_ok\<lparr>evaluate_ExposeStore := Raised (External ''moduleraid'')\<rparr>) ''page'' ''browser''
       \<lparr>this = \<lparr>pupBrowser = None, pupPage = None, info = None\<rparr>, trace = ([] :: unit effect list)\<rparr> =
     (Done (),
      \<lparr>this = \<lparr>pupBrowser = Some ''browser'', pupPage = Some ''page'', info = Some (ClientInfo ''conn'')\<rparr>,
       trace = [ConsoleLog (External ''moduleraid''),
                Emit (AUTHENTICATED \<lparr>WABrowserId = None, WASecretBundle = None, WAToken1 = None, WAToken2 = None\<rparr>),
                Emit READY]\<rparr>) \<and>
   initialize (replies_ok\<lparr>evaluate_LoadUtils := Raised (External ''helpers'')\<rparr>) ''page'' ''browser''
       \<lparr>this = \<lparr>pupBrowser = None, pupPage = None, info = None\<rparr>, trace = ([] :: unit effect list)\<rparr> =
     (Raised (External ''helpers''),
      \<lparr>this = \<lparr>pupBrowser = None, pupPage = None, info = None\<rparr>,
       trace = [Emit (AUTHENTICATED \<lparr>WABrowserId = None, WASecretBundle = None, WAToken1 = None, WAToken2 = None\<rparr>)]\<rparr>)"
  using
    initialize_failures [where reply = "replies_ok\<lparr>evaluate_ExposeStore := Raised (External ''moduleraid'')\<rparr>"
      and ?e0.0 = "External ''moduleraid''" and page = "''page''" and browser = "''browser''"
      and h = "\<lparr>this = \<lparr>pupBrowser = None, pupPage = None, info = None\<rparr>, trace = ([] :: unit effect list)\<rparr>"]
    initialize_failures [where reply = "replies_ok\<lparr>evaluate_LoadUtils := Raised (External ''helpers'')\<rparr>"
      and e = "External ''helpers''" and page = "''page''" and browser = "''browser''"
      and h = "\<lparr>this = \<lparr>pupBrowser = None, pupPage = None, info = None\<rparr>, trace = ([] :: unit effect list)\<rparr>"]
  by (simp add: replies_ok_def initialize_def prog_defs)

text \<open>
  When an identifier \<open>page\<close> is in scope, \<open>destroy\<close> is the wait for the selector with
  \<open>timeout: 0\<close> and nothing else: it returns what the wait returns and changes no state.
\<close>

lemma destroy_bound_page:
  "destroy (Some page) waitForSelector h =
     (waitForSelector page KEEP_PHONE_CONNECTED_IMG_SELECTOR 0, h)"
  by (simp add: destroy_def await_def)

text \<open>
  Claim C5 says that \<open>destroy\<close> waits for the marker to appear in the page. In the module
  as it is written no \<open>page\<close> is in scope of \<open>destroy\<close>, and then the call throws a
  ReferenceError without any wait, whatever \<open>waitForSelector\<close> would do.
\<close>

theorem destroy_unbound_page:
  "destroy None waitForSelector h = (Raised (ReferenceError ''page''), h)"
  by (simp add: destroy_def throw_def)

section \<open>Properties of sendMessage\<close>

lemma in_page_borrow:
  assumes "Chat_get api s chatId = None"
    and "getNumberId api s chatId = Done (Some newChatId)"
    and "models s = chat # cs"
    and "WWebJS_sendMessage api chat message io None (set_chat_id chat newChatId s) = (Done msg, s2)"
  shows "sendMessage_in_page api chatId message io seen s =
    (Done (serialize api msg), set_chat_id chat (chat_id (heap s chat)) s2)"
  using assms by (simp add: sendMessage_in_page_def prog_defs)

lemma in_page_no_chat:
  assumes "Chat_get api s chatId = None"
    and "getNumberId api s chatId = Done (Some newChatId)"
    and "models s = []"
  shows "sendMessage_in_page api chatId message io seen s =
    (Raised (Thrown ''Chat List empty! Need at least one open conversation with any of your contact''), s)"
  using assms by (simp add: sendMessage_in_page_def prog_defs)

text \<open>When the send helper throws on the borrowing path, the borrowed chat keeps the new identity.\<close>

lemma in_page_borrow_send_throws:
  assumes "Chat_get api s chatId = None"
    and "getNumberId api s chatId = Done (Some newChatId)"
    and "models s = chat # cs"
    and "WWebJS_sendMessage api chat message io None (set_chat_id chat newChatId s) = (Raised e, s2)"
  shows "sendMessage_in_page api chatId message io seen s = (Raised e, s2)"
  using assms by (simp add: sendMessage_in_page_def prog_defs)

text \<open>
  Claim C2, as stated, fails: with the chat absent, the destination unresolvable and no
  chat in the list, the script skips the branch that throws and fails on
  \<open>msg.serialize()\<close> with a TypeError.
\<close>

theorem sendMessage_unresolvable_counterexample:
  "Chat_get api_unresolvable empty_store ''123'' = None \<and>
   getNumberId api_unresolvable empty_store ''123'' = Done None \<and>
   models empty_store = [] \<and>
   sendMessage api_unresolvable \<lparr>pupBrowser = Some (), pupPage = Some (), info = Some (ClientInfo ())\<rparr>
       ''123'' (Text ''hi'')
       \<lparr>opt_caption = None, opt_quotedMessageId = None, opt_mentions = None, opt_media = None,
        opt_sendSeen = None\<rparr>
       empty_store =
     (Raised (TypeError ''msg is undefined''), empty_store) \<and>
   fst (sendMessage api_unresolvable \<lparr>pupBrowser = Some (), pupPage = Some (), info = Some (ClientInfo ())\<rparr>
       ''123'' (Text ''hi'')
       \<lparr>opt_caption = None, opt_quotedMessageId = None, opt_mentions = None, opt_media = None,
        opt_sendSeen = None\<rparr>
       empty_store) \<noteq>
     Raised (Thrown ''Chat List empty! Need at least one open conversation with any of your contact'')"
  by (simp add: sendMessage_def sendMessage_in_page_def internalOptions_and_content_def
      api_unresolvable_def empty_store_def prog_defs)

text \<open>
  Claim C2, amended. When the destination chat is absent from the chat list, the
  destination resolves to a canonical identity and the chat list is empty, \<open>sendMessage\<close>
  fails with the thrown string \<open>Chat List empty! ...\<close> and leaves the page's store as it was.
\<close>

theorem sendMessage_no_chat_to_borrow:
  assumes "pupPage client = Some page"
    and "Chat_get api s chatId = None"
    and "getNumberId api s chatId = Done (Some newChatId)"
    and "models s = []"
  shows "sendMessage api client chatId content options s =
    (Raised (Thrown ''Chat List empty! Need at least one open conversation with any of your contact''), s)"
  using assms(1) in_page_no_chat [OF assms(2-4)]
  by (simp add: sendMessage_def and_then_def split_beta)

theorem sendMessage_no_chat_to_borrow_witness:
  "sendMessage api_resolvable \<lparr>pupBrowser = Some (), pupPage = Some (), info = Some (ClientInfo ())\<rparr>
       ''123'' (Text ''hi'')
       \<lparr>opt_caption = None, opt_quotedMessageId = None, opt_mentions = None, opt_media = None,
        opt_sendSeen = None\<rparr>
       empty_store =
     (Raised (Thrown ''Chat List empty! Need at least one open conversation with any of your contact''),
      empty_store)"
  using
    sendMessage_no_chat_to_borrow [where api = api_resolvable and s = empty_store
      and chatId = "''123''" and newChatId = "''123@c.us''" and page = "()"
      and client = "\<lparr>pupBrowser = Some (), pupPage = Some (), info = Some (ClientInfo ())\<rparr>"
      and content = "Text ''hi''"
      and options = "\<lparr>opt_caption = None, opt_quotedMessageId = None, opt_mentions = None,
        opt_media = None, opt_sendSeen = None\<rparr>"]
  by (simp add: api_resolvable_def api_unresolvable_def empty_store_def)

text \<open>
  Claim C7. On the borrowing path (chat absent, destination resolved to \<open>newChatId\<close>,
  \<open>chat\<close> first in the list), the send helper is called on \<open>chat\<close> in a store where
  \<open>chat\<close> has the identity \<open>newChatId\<close> and its other fields as before. When the helper
  returns, \<open>sendMessage\<close> returns the message built from its result, and in the store it
  leaves, \<open>chat\<close> has its original identity again; its other fields, every other chat
  object and the chat list are as the helper left them. So when the helper has left the
  other fields of \<open>chat\<close> alone, the chat object is what it was before the call.
\<close>

theorem sendMessage_borrows_identity:
  assumes "pupPage client = Some page"
    and "internalOptions_and_content content options = (io, content')"
    and "Chat_get api s chatId = None"
    and "getNumberId api s chatId = Done (Some newChatId)"
    and "models s = chat # cs"
    and "WWebJS_sendMessage api chat content' io None (set_chat_id chat newChatId s) = (Done msg, s2)"
  shows "chat_id (heap (set_chat_id chat newChatId s) chat) = newChatId \<and>
     chat_rest (heap (set_chat_id chat newChatId s) chat) = chat_rest (heap s chat) \<and>
     sendMessage api client chatId content options s =
       (Done (Message (serialize api msg)), set_chat_id chat (chat_id (heap s chat)) s2) \<and>
     chat_id (heap (snd (sendMessage api client chatId content options s)) chat) = chat_id (heap s chat) \<and>
     chat_rest (heap (snd (sendMessage api client chatId content options s)) chat) = chat_rest (heap s2 chat) \<and>
     (\<forall>a. a \<noteq> chat \<longrightarrow> heap (snd (sendMessage api client chatId content options s)) a = heap s2 a) \<and>
     models (snd (sendMessage api client chatId content options s)) = models s2 \<and>
     (chat_rest (heap s2 chat) = chat_rest (heap s chat) \<longrightarrow>
        heap (snd (sendMessage api client chatId content options s)) chat = heap s chat)"
proof -
  have run: "sendMessage api client chatId content options s =
       (Done (Message (serialize api msg)), set_chat_id chat (chat_id (heap s chat)) s2)"
    using assms(1,2) in_page_borrow [OF assms(3-6)]
    by (simp add: sendMessage_def and_then_def return_def)
  show ?thesis
    unfolding run by (simp add: set_chat_id_def)
qed

text \<open>
  A send to \<open>123\<close> with the single chat \<open>555@c.us\<close> in the list: the helper sees the
  identity \<open>123@c.us\<close> on the borrowed chat (it answers with the identity it was given),
  and afterwards the chat is \<open>555@c.us\<close> again.
\<close>

theorem sendMessage_borrows_identity_witness:
  "fst (sendMessage api_resolvable \<lparr>pupBrowser = Some (), pupPage = Some (), info = Some (ClientInfo ())\<rparr>
       ''123'' (Text ''hi'')
       \<lparr>opt_caption = None, opt_quotedMessageId = None, opt_mentions = None, opt_media = None,
        opt_sendSeen = None\<rparr>
       one_chat_store) =
     Done (Message \<lparr>isNewMsg = True, msg_type = ''chat'', subtype = None,
       msg_id = \<lparr>fromMe = True, id_str = ''123@c.us''\<rparr>, rest = ()\<rparr>) \<and>
   chat_id (heap (snd (sendMessage api_resolvable
       \<lparr>pupBrowser = Some (), pupPage = Some (), info = Some (ClientInfo ())\<rparr>
       ''123'' (Text ''hi'')
       \<lparr>opt_caption = None, opt_quotedMessageId = None, opt_mentions = None, opt_media = None,
        opt_sendSeen = None\<rparr>
       one_chat_store)) 0) = ''555@c.us'' \<and>
   heap (snd (sendMessage api_resolvable
       \<lparr>pupBrowser = Some (), pupPage = Some (), info = Some (ClientInfo ())\<rparr>
       ''123'' (Text ''hi'')
       \<lparr>opt_caption = None, opt_quotedMessageId = None, opt_mentions = None, opt_media = None,
        opt_sendSeen = None\<rparr>
       one_chat_store)) 0 = heap one_chat_store 0"
  using
    sendMessage_borrows_identity [where api = api_resolvable and s = one_chat_store
      and chatId = "''123''" and newChatId = "''123@c.us''" and page = "()"
      and client = "\<lparr>pupBrowser = Some (), pupPage = Some (), info = Some (ClientInfo ())\<rparr>"
      and content = "Text ''hi''" and content' = "Text ''hi''"
      and options = "\<lparr>opt_caption = None, opt_quotedMessageId = None, opt_mentions = None,
        opt_media = None, opt_sendSeen = None\<rparr>"
      and io = "\<lparr>io_caption = None, io_quotedMessageId = None, io_mentionedJidList = [],
        io_attachment = None, io_location = None\<rparr>"
      and chat = 0 and cs = "[]" and msg = "''123@c.us''"
      and ?s2.0 = "set_chat_id 0 ''123@c.us'' one_chat_store"]
  by (simp add: api_resolvable_def api_unresolvable_def one_chat_store_def
      internalOptions_and_content_def set_chat_id_def)

end
